theory Spec2Isabelle
  imports Complex_Main "HOL-Library.Multiset" "HOL-Library.Product_Lexorder"
    "HOL-Library.Monad_Syntax"
begin

section \<open>Data model of the review server\<close>

text \<open>
  The scores returned by \<^verbatim>\<open>sia.polarity_scores\<close>: a dictionary with the keys
  \<^verbatim>\<open>neg\<close>, \<^verbatim>\<open>neu\<close>, \<^verbatim>\<open>pos\<close> and \<^verbatim>\<open>compound\<close>. The analyzer is a third-party library;
  the server is modelled for an arbitrary scoring function.
\<close>

record sentiment_scores =
  neg :: real
  neu :: real
  pos :: real
  compound :: real

type_synonym scorer = "string \<Rightarrow> sentiment_scores"

text \<open>
  One review dictionary. Records loaded from the CSV file have no \<^verbatim>\<open>sentiment\<close> key
  (\<open>None\<close>) until a request writes one.
\<close>

record review =
  ReviewId :: string
  Location :: string
  Timestamp :: string
  ReviewBody :: string
  sentiment :: "sentiment_scores option"

text \<open>
  The dictionaries are mutable objects that several lists can refer to, so the model keeps
  them in an explicit heap: \<open>heap\<close> maps the address of a dictionary to its current
  value, and \<open>reviews\<close> is the list object \<^verbatim>\<open>self.reviews\<close>, a list of addresses.
\<close>

record server =
  heap :: "nat \<Rightarrow> review"
  reviews :: "nat list"

text \<open>
  The local variable \<^verbatim>\<open>filtered_reviews\<close> is either bound to the very list object
  \<^verbatim>\<open>self.reviews\<close> (\<open>Store\<close>), or to a new list built by a comprehension
  (\<open>Local\<close>).
\<close>

datatype listref = Store | Local "nat list"

fun elems :: "server \<Rightarrow> listref \<Rightarrow> nat list" where
  "elems s Store = reviews s"
| "elems s (Local xs) = xs"

datatype exn = ValueError | KeyError

datatype content = ReviewList "review list" | ReviewObj review | ErrorObj string

text \<open>
  What a handler does: it calls \<^verbatim>\<open>start_response\<close> with a status line and returns a
  JSON body (\<open>Response\<close>), or an exception leaves the handler (\<open>Raised\<close>).
\<close>

datatype result = Response string content | Raised exn

text \<open>
  The dictionary \<^verbatim>\<open>parse_qs\<close> returns, read through \<^verbatim>\<open>params.get(k, [None])[0]\<close>: the
  first value of key \<open>k\<close>, or \<open>None\<close> when the key is absent (the lists of
  \<^verbatim>\<open>parse_qs\<close> are never empty).
\<close>

type_synonym params = "string \<rightharpoonup> string"

text \<open>Python's truth test on an optional string: \<open>None\<close> and the empty string are false.\<close>

definition truthy :: "string option \<Rightarrow> string option" where
  "truthy v = (case v of None \<Rightarrow> None | Some x \<Rightarrow> if x = [] then None else Some x)"

definition allowed_locations :: "string set" where
  "allowed_locations = {
     ''Albuquerque, New Mexico'',
     ''Carlsbad, California'',
     ''Chula Vista, California'',
     ''Colorado Springs, Colorado'',
     ''Denver, Colorado'',
     ''El Cajon, California'',
     ''El Paso, Texas'',
     ''Escondido, California'',
     ''Fresno, California'',
     ''La Mesa, California'',
     ''Las Vegas, Nevada'',
     ''Los Angeles, California'',
     ''Oceanside, California'',
     ''Phoenix, Arizona'',
     ''Sacramento, California'',
     ''Salt Lake City, Utah'',
     ''San Diego, California'',
     ''Tucson, Arizona''}"

section \<open>Dates and times\<close>

text \<open>
  A naive \<^verbatim>\<open>datetime\<close>: year, month, day, hour, minute, second, microsecond. Python
  compares two of them field by field in this order, which is the lexicographic order of
  the tuple.
\<close>

type_synonym datetime = "nat \<times> nat \<times> nat \<times> nat \<times> nat \<times> nat \<times> nat"

definition is_leap :: "nat \<Rightarrow> bool" where
  "is_leap y \<longleftrightarrow> y mod 4 = 0 \<and> (y mod 100 \<noteq> 0 \<or> y mod 400 = 0)"

definition days_in_month :: "nat \<Rightarrow> nat \<Rightarrow> nat" where
  "days_in_month y m =
     (if m = 2 then (if is_leap y then 29 else 28)
      else if m = 4 \<or> m = 6 \<or> m = 9 \<or> m = 11 then 30 else 31)"

text \<open>The range checks of the \<^verbatim>\<open>datetime\<close> constructor; it raises \<^verbatim>\<open>ValueError\<close>.\<close>

definition valid_datetime :: "datetime \<Rightarrow> bool" where
  "valid_datetime t =
     (case t of (y, m, d, hh, mm, ss, us) \<Rightarrow>
        1 \<le> y \<and> y \<le> 9999 \<and> 1 \<le> m \<and> m \<le> 12 \<and> 1 \<le> d \<and> d \<le> days_in_month y m \<and>
        hh < 24 \<and> mm < 60 \<and> ss < 60 \<and> us < 1000000)"

definition mk_datetime :: "datetime \<Rightarrow> exn + datetime" where
  "mk_datetime t = (if valid_datetime t then Inr t else Inl ValueError)"

subsection \<open>The regular expressions of \<^verbatim>\<open>strptime\<close>\<close>

text \<open>
  \<^verbatim>\<open>strptime\<close> turns the format into a regular expression: each directive is an
  alternation of short character-class sequences, tried in order. A character is a code
  point below 256 here, so \<^verbatim>\<open>\d\<close> is \<^verbatim>\<open>[0-9]\<close> and \<^verbatim>\<open>\s\<close> is the set below.
\<close>

definition rng :: "char \<Rightarrow> char \<Rightarrow> char \<Rightarrow> bool" where
  "rng lo hi c \<longleftrightarrow> (of_char lo :: nat) \<le> of_char c \<and> (of_char c :: nat) \<le> of_char hi"

definition is_digit :: "char \<Rightarrow> bool" where
  "is_digit = rng CHR ''0'' CHR ''9''"

definition is_space :: "char \<Rightarrow> bool" where
  "is_space c \<longleftrightarrow> (of_char c :: nat) \<in> set [9, 10, 11, 12, 13, 28, 29, 30, 31, 32, 133, 160]"

fun match_seq :: "(char \<Rightarrow> bool) list \<Rightarrow> string \<Rightarrow> (string \<times> string) option" where
  "match_seq [] cs = Some ([], cs)"
| "match_seq (p # ps) [] = None"
| "match_seq (p # ps) (c # cs) =
     (if p c then (case match_seq ps cs of None \<Rightarrow> None | Some (m, r) \<Rightarrow> Some (c # m, r))
      else None)"

fun match_alts :: "(char \<Rightarrow> bool) list list \<Rightarrow> string \<Rightarrow> (string \<times> string) option" where
  "match_alts [] cs = None"
| "match_alts (a # as) cs =
     (case match_seq a cs of None \<Rightarrow> match_alts as cs | Some r \<Rightarrow> Some r)"

text \<open>\<^verbatim>\<open>int(text)\<close> on the text of a group: decimal digits, after an optional blank.\<close>

definition int_of :: "string \<Rightarrow> nat" where
  "int_of cs = foldl (\<lambda>n c. if is_digit c then 10 * n + (of_char c - 48) else n) 0 cs"

definition field :: "(char \<Rightarrow> bool) list list \<Rightarrow> string \<Rightarrow> (nat \<times> string) option" where
  "field alts cs = (case match_alts alts cs of None \<Rightarrow> None | Some (m, r) \<Rightarrow> Some (int_of m, r))"

definition lit :: "char \<Rightarrow> string \<Rightarrow> string option" where
  "lit c cs = (case cs of [] \<Rightarrow> None | x # r \<Rightarrow> if x = c then Some r else None)"

text \<open>A blank in the format is \<^verbatim>\<open>\s+\<close>: one or more white-space characters.\<close>

definition spaces :: "string \<Rightarrow> string option" where
  "spaces cs = (case cs of [] \<Rightarrow> None | x # r \<Rightarrow> if is_space x then Some (dropWhile is_space r) else None)"

definition re_Y :: "(char \<Rightarrow> bool) list list" where
  "re_Y = [[is_digit, is_digit, is_digit, is_digit]]"

definition re_m :: "(char \<Rightarrow> bool) list list" where
  "re_m = [[(=) CHR ''1'', rng CHR ''0'' CHR ''2''], [(=) CHR ''0'', rng CHR ''1'' CHR ''9''],
           [rng CHR ''1'' CHR ''9'']]"

definition re_d :: "(char \<Rightarrow> bool) list list" where
  "re_d = [[(=) CHR ''3'', rng CHR ''0'' CHR ''1''], [rng CHR ''1'' CHR ''2'', is_digit],
           [(=) CHR ''0'', rng CHR ''1'' CHR ''9''], [rng CHR ''1'' CHR ''9''],
           [(=) CHR '' '', rng CHR ''1'' CHR ''9'']]"

definition re_H :: "(char \<Rightarrow> bool) list list" where
  "re_H = [[(=) CHR ''2'', rng CHR ''0'' CHR ''3''], [rng CHR ''0'' CHR ''1'', is_digit],
           [is_digit]]"

definition re_M :: "(char \<Rightarrow> bool) list list" where
  "re_M = [[rng CHR ''0'' CHR ''5'', is_digit], [is_digit]]"

definition re_S :: "(char \<Rightarrow> bool) list list" where
  "re_S = [[(=) CHR ''6'', rng CHR ''0'' CHR ''1''], [rng CHR ''0'' CHR ''5'', is_digit],
           [is_digit]]"

text \<open>The match of \<^verbatim>\<open>%Y-%m-%d\<close> at the start of the text, and what is left.\<close>

definition match_ymd :: "string \<Rightarrow> ((nat \<times> nat \<times> nat) \<times> string) option" where
  "match_ymd cs = do {
     (y, r1) \<leftarrow> field re_Y cs;
     r2 \<leftarrow> lit CHR ''-'' r1;
     (m, r3) \<leftarrow> field re_m r2;
     r4 \<leftarrow> lit CHR ''-'' r3;
     (d, r5) \<leftarrow> field re_d r4;
     Some ((y, m, d), r5) }"

definition match_hms :: "string \<Rightarrow> ((nat \<times> nat \<times> nat) \<times> string) option" where
  "match_hms cs = do {
     (hh, r1) \<leftarrow> field re_H cs;
     r2 \<leftarrow> lit CHR '':'' r1;
     (mm, r3) \<leftarrow> field re_M r2;
     r4 \<leftarrow> lit CHR '':'' r3;
     (ss, r5) \<leftarrow> field re_S r4;
     Some ((hh, mm, ss), r5) }"

text \<open>
  \<^verbatim>\<open>datetime.strptime(text, '%Y-%m-%d')\<close>: the text must match and nothing may remain;
  the time of day is midnight. Every failure is a \<^verbatim>\<open>ValueError\<close>.
\<close>

definition strptime_date :: "string \<Rightarrow> exn + datetime" where
  "strptime_date cs =
     (case match_ymd cs of
        Some ((y, m, d), []) \<Rightarrow> mk_datetime (y, m, d, 0, 0, 0, 0)
      | _ \<Rightarrow> Inl ValueError)"

text \<open>\<^verbatim>\<open>datetime.strptime(text, '%Y-%m-%d %H:%M:%S')\<close>.\<close>

definition strptime_datetime :: "string \<Rightarrow> exn + datetime" where
  "strptime_datetime cs =
     (case do { (ymd, r1) \<leftarrow> match_ymd cs; r2 \<leftarrow> spaces r1; (hms, r3) \<leftarrow> match_hms r2;
                Some (ymd, hms, r3) } of
        Some ((y, m, d), (hh, mm, ss), []) \<Rightarrow> mk_datetime (y, m, d, hh, mm, ss, 0)
      | _ \<Rightarrow> Inl ValueError)"

text \<open>
  \<^verbatim>\<open>t.strftime('%Y-%m-%d %H:%M:%S')\<close>: zero-padded decimal fields, the microsecond
  dropped. (For a year below 1000 the C library decides the padding of \<^verbatim>\<open>%Y\<close>; the
  statements about the format below are for the years from 1000 on.)
\<close>

definition digit :: "nat \<Rightarrow> char" where
  "digit n = char_of (48 + n mod 10)"

definition pad2 :: "nat \<Rightarrow> string" where
  "pad2 n = [digit (n div 10), digit n]"

definition pad4 :: "nat \<Rightarrow> string" where
  "pad4 n = [digit (n div 1000), digit (n div 100), digit (n div 10), digit n]"

definition strftime :: "datetime \<Rightarrow> string" where
  "strftime t =
     (case t of (y, m, d, hh, mm, ss, us) \<Rightarrow>
        pad4 y @ ''-'' @ pad2 m @ ''-'' @ pad2 d @ '' '' @ pad2 hh @ '':'' @ pad2 mm @ '':'' @ pad2 ss)"

section \<open>The GET handler\<close>

text \<open>
  Lines 96 to 100. An unknown location ends the request (\<open>None\<close>); a known one builds a
  new list of the dictionaries at that location; without a location the variable stays
  bound to the list it was given.
\<close>

definition filter_location :: "server \<Rightarrow> string option \<Rightarrow> listref \<Rightarrow> listref option" where
  "filter_location s location l =
     (case truthy location of
        None \<Rightarrow> Some l
      | Some loc \<Rightarrow>
          if loc \<notin> allowed_locations then None
          else Some (Local [a \<leftarrow> elems s l. Location (heap s a) = loc]))"

text \<open>
  The comprehensions of lines 104 and 108 parse the time stamp of each dictionary in turn;
  the first one that does not parse raises.
\<close>

fun filter_ts :: "(datetime \<Rightarrow> bool) \<Rightarrow> (nat \<Rightarrow> review) \<Rightarrow> nat list \<Rightarrow> exn + nat list" where
  "filter_ts P h [] = Inr []"
| "filter_ts P h (a # as) =
     (case strptime_datetime (Timestamp (h a)) of
        Inl e \<Rightarrow> Inl e
      | Inr t \<Rightarrow>
          (case filter_ts P h as of
             Inl e \<Rightarrow> Inl e
           | Inr bs \<Rightarrow> Inr (if P t then a # bs else bs)))"

text \<open>Lines 102 to 104.\<close>

definition filter_start :: "server \<Rightarrow> string option \<Rightarrow> listref \<Rightarrow> exn + listref" where
  "filter_start s start_date l =
     (case truthy start_date of
        None \<Rightarrow> Inr l
      | Some d \<Rightarrow>
          (case strptime_date d of
             Inl e \<Rightarrow> Inl e
           | Inr start_dt \<Rightarrow>
               (case filter_ts (\<lambda>t. t \<ge> start_dt) (heap s) (elems s l) of
                  Inl e \<Rightarrow> Inl e
                | Inr xs \<Rightarrow> Inr (Local xs))))"

text \<open>Lines 106 to 108.\<close>

definition filter_end :: "server \<Rightarrow> string option \<Rightarrow> listref \<Rightarrow> exn + listref" where
  "filter_end s end_date l =
     (case truthy end_date of
        None \<Rightarrow> Inr l
      | Some d \<Rightarrow>
          (case strptime_date d of
             Inl e \<Rightarrow> Inl e
           | Inr end_dt \<Rightarrow>
               (case filter_ts (\<lambda>t. t \<le> end_dt) (heap s) (elems s l) of
                  Inl e \<Rightarrow> Inl e
                | Inr xs \<Rightarrow> Inr (Local xs))))"

text \<open>
  Lines 110 and 111: the loop assigns the key \<^verbatim>\<open>sentiment\<close> of each dictionary the
  list refers to. The dictionaries are the stored ones.
\<close>

definition set_sentiment :: "scorer \<Rightarrow> review \<Rightarrow> review" where
  "set_sentiment sc r = r\<lparr>sentiment := Some (sc (ReviewBody r))\<rparr>"

definition analyze_all :: "scorer \<Rightarrow> nat list \<Rightarrow> (nat \<Rightarrow> review) \<Rightarrow> (nat \<Rightarrow> review)" where
  "analyze_all sc xs h = fold (\<lambda>a h. h(a := set_sentiment sc (h a))) xs h"

text \<open>
  Line 113. \<^verbatim>\<open>list.sort\<close> first computes the key of every element, which raises
  \<^verbatim>\<open>KeyError\<close> on a dictionary without \<^verbatim>\<open>sentiment\<close>; then it sorts stably, and with
  \<^verbatim>\<open>reverse=True\<close> elements of equal key keep their order. It sorts the list object in
  place: when the variable is bound to \<^verbatim>\<open>self.reviews\<close>, that is the stored list.
\<close>

fun sort_keys :: "(nat \<Rightarrow> review) \<Rightarrow> nat list \<Rightarrow> exn + (real \<times> nat) list" where
  "sort_keys h [] = Inr []"
| "sort_keys h (a # as) =
     (case sentiment (h a) of
        None \<Rightarrow> Inl KeyError
      | Some v \<Rightarrow>
          (case sort_keys h as of
             Inl e \<Rightarrow> Inl e
           | Inr ks \<Rightarrow> Inr ((compound v, a) # ks)))"

definition sort_desc :: "(real \<times> nat) list \<Rightarrow> nat list" where
  "sort_desc ks = map snd (sort_key (\<lambda>p. - fst p) ks)"

definition sort_reviews :: "listref \<Rightarrow> server \<Rightarrow> exn + (listref \<times> server)" where
  "sort_reviews l s =
     (case sort_keys (heap s) (elems s l) of
        Inl e \<Rightarrow> Inl e
      | Inr ks \<Rightarrow>
          (case l of
             Store \<Rightarrow> Inr (Store, s\<lparr>reviews := sort_desc ks\<rparr>)
           | Local xs \<Rightarrow> Inr (Local (sort_desc ks), s)))"

text \<open>
  \<^verbatim>\<open>handle_get\<close>, from the parsed query string. The body of the 200 response is the
  JSON text of the dictionaries as they are when it is written.
\<close>

definition handle_get :: "scorer \<Rightarrow> params \<Rightarrow> server \<Rightarrow> result \<times> server" where
  "handle_get sc params s =
     (let location = params ''location'';
          start_date = params ''start_date'';
          end_date = params ''end_date''
      in case filter_location s location Store of
           None \<Rightarrow> (Response ''400 Bad Request'' (ErrorObj ''Invalid location''), s)
         | Some l1 \<Rightarrow>
             (case filter_start s start_date l1 of
                Inl e \<Rightarrow> (Raised e, s)
              | Inr l2 \<Rightarrow>
                  (case filter_end s end_date l2 of
                     Inl e \<Rightarrow> (Raised e, s)
                   | Inr l3 \<Rightarrow>
                       (let s1 = s\<lparr>heap := analyze_all sc (elems s l3) (heap s)\<rparr>
                        in case sort_reviews l3 s1 of
                             Inl e \<Rightarrow> (Raised e, s1)
                           | Inr (l4, s2) \<Rightarrow>
                               (Response ''200 OK''
                                  (ReviewList (map (heap s2) (elems s2 l4))), s2)))))"

section \<open>The POST handler\<close>

text \<open>The address of a newly created dictionary: one that no stored reference uses.\<close>

definition new_addr :: "server \<Rightarrow> nat" where
  "new_addr s = Suc (fold max (reviews s) 0)"

text \<open>
  \<^verbatim>\<open>handle_post\<close>, from the parsed form. \<open>uuid\<close> is the text of \<^verbatim>\<open>uuid.uuid4()\<close> and
  \<open>now\<close> the value of \<^verbatim>\<open>datetime.now()\<close> for this request.
\<close>

definition handle_post :: "scorer \<Rightarrow> string \<Rightarrow> datetime \<Rightarrow> params \<Rightarrow> server \<Rightarrow> result \<times> server" where
  "handle_post sc uuid now params s =
     (let location = params ''Location'';
          review_body = params ''ReviewBody''
      in case (truthy location, truthy review_body) of
           (Some loc, Some body) \<Rightarrow>
             if loc \<notin> allowed_locations
             then (Response ''400 Bad Request'' (ErrorObj ''Invalid location''), s)
             else
               (let new_review = \<lparr>ReviewId = uuid, Location = loc, Timestamp = strftime now,
                                  ReviewBody = body, sentiment = Some (sc body)\<rparr>;
                    a = new_addr s
                in (Response ''201 Created'' (ReviewObj new_review),
                    s\<lparr>heap := (heap s)(a := new_review), reviews := reviews s @ [a]\<rparr>))
         | _ \<Rightarrow>
             (Response ''400 Bad Request'' (ErrorObj ''Location and ReviewBody are required''), s))"

section \<open>The filter as the specification words it\<close>



section \<open>Example values\<close>

text \<open>A scoring function, a clock reading and a store of two loaded reviews, for the examples.\<close>

definition example_scorer :: scorer where
  "example_scorer body =
     (if body = ''Terrible service, cold food''
      then \<lparr>neg = 0.565, neu = 0.435, pos = 0, compound = - 0.4767\<rparr>
      else if body = ''Amazing meal, wonderful staff''
      then \<lparr>neg = 0, neu = 0.196, pos = 0.804, compound = 0.8225\<rparr>
      else \<lparr>neg = 0, neu = 1, pos = 0, compound = 0\<rparr>)"

definition example_now :: datetime where
  "example_now = (2024, 3, 9, 7, 5, 1, 123456)"

definition review0 :: review where
  "review0 = \<lparr>ReviewId = ''id-0'', Location = ''Denver, Colorado'',
     Timestamp = ''2021-01-05 10:00:00'', ReviewBody = ''Terrible service, cold food'',
     sentiment = None\<rparr>"

definition review1 :: review where
  "review1 = \<lparr>ReviewId = ''id-1'', Location = ''Phoenix, Arizona'',
     Timestamp = ''2022-06-15 08:30:00'', ReviewBody = ''Amazing meal, wonderful staff'',
     sentiment = None\<rparr>"

definition example_server :: server where
  "example_server = \<lparr>heap = (\<lambda>a. if a = 1 then review1 else review0), reviews = [0, 1]\<rparr>"

section \<open>Validation of the location\<close>

lemma truthy_simps [simp]:
  "truthy None = None"
  "truthy (Some []) = None"
  "truthy (Some (c # cs)) = Some (c # cs)"
  by (simp_all add: truthy_def)

lemma truthy_Some_iff: "truthy v = Some x \<longleftrightarrow> v = Some x \<and> x \<noteq> []"
  by (auto simp: truthy_def split: option.splits)

lemma truthy_None_iff: "truthy v = None \<longleftrightarrow> v = None \<or> v = Some []"
  by (auto simp: truthy_def split: option.splits)

lemma card_allowed_locations: "card allowed_locations = 18"
  by (simp add: allowed_locations_def)

lemma handle_get_invalid_location:
  assumes "truthy (params ''location'') = Some loc" and "loc \<notin> allowed_locations"
  shows "handle_get sc params s = (Response ''400 Bad Request'' (ErrorObj ''Invalid location''), s)"
  using assms by (simp add: handle_get_def filter_location_def)

lemma handle_get_not_invalid:
  assumes "truthy (params ''location'') = Some loc" and "loc \<in> allowed_locations"
  shows "fst (handle_get sc params s) \<noteq> Response ''400 Bad Request'' (ErrorObj ''Invalid location'')"
  using assms
  by (auto simp: handle_get_def filter_location_def Let_def split: sum.splits prod.splits)

lemma handle_post_missing:
  assumes "truthy (params ''Location'') = None \<or> truthy (params ''ReviewBody'') = None"
  shows "handle_post sc uuid now params s =
    (Response ''400 Bad Request'' (ErrorObj ''Location and ReviewBody are required''), s)"
  using assms by (auto simp: handle_post_def split: option.splits)

lemma handle_post_invalid_location:
  assumes "truthy (params ''Location'') = Some loc" and "truthy (params ''ReviewBody'') = Some body"
    and "loc \<notin> allowed_locations"
  shows "handle_post sc uuid now params s =
    (Response ''400 Bad Request'' (ErrorObj ''Invalid location''), s)"
  using assms by (simp add: handle_post_def)

lemma handle_post_created:
  assumes "truthy (params ''Location'') = Some loc" and "truthy (params ''ReviewBody'') = Some body"
    and "loc \<in> allowed_locations"
  shows "handle_post sc uuid now params s =
    (Response ''201 Created''
       (ReviewObj \<lparr>ReviewId = uuid, Location = loc, Timestamp = strftime now,
                   ReviewBody = body, sentiment = Some (sc body)\<rparr>),
     s\<lparr>heap := (heap s)(new_addr s :=
          \<lparr>ReviewId = uuid, Location = loc, Timestamp = strftime now,
           ReviewBody = body, sentiment = Some (sc body)\<rparr>),
       reviews := reviews s @ [new_addr s]\<rparr>)"
  using assms by (simp add: handle_post_def Let_def)

section \<open>Claims about validation\<close>

text \<open>
  Claim C3, as amended. The locations that pass validation, in a query and in a submission
  alike, are exactly the 18 strings of the source, each a city and the full name of its state:
  the set has 18 members, a submission at ``Phoenix, Arizona'' is created, and a non-empty
  location is refused with ``Invalid location'' exactly when it is outside the set.
\<close>

theorem allowed_locations_full_state_names:
  "allowed_locations = set [''Albuquerque, New Mexico'', ''Carlsbad, California'',
      ''Chula Vista, California'', ''Colorado Springs, Colorado'', ''Denver, Colorado'',
      ''El Cajon, California'', ''El Paso, Texas'', ''Escondido, California'',
      ''Fresno, California'', ''La Mesa, California'', ''Las Vegas, Nevada'',
      ''Los Angeles, California'', ''Oceanside, California'', ''Phoenix, Arizona'',
      ''Sacramento, California'', ''Salt Lake City, Utah'', ''San Diego, California'',
      ''Tucson, Arizona'']
   \<and> card allowed_locations = 18
   \<and> (truthy (params ''location'') = Some loc \<longrightarrow>
        (fst (handle_get sc params s) = Response ''400 Bad Request'' (ErrorObj ''Invalid location'')
         \<longleftrightarrow> loc \<notin> allowed_locations))
   \<and> (truthy (form ''Location'') = Some loc \<and> truthy (form ''ReviewBody'') = Some body \<longrightarrow>
        (fst (handle_post sc uuid now form s) = Response ''400 Bad Request'' (ErrorObj ''Invalid location'')
         \<longleftrightarrow> loc \<notin> allowed_locations)
        \<and> (loc \<in> allowed_locations \<longrightarrow>
             (\<exists>r. fst (handle_post sc uuid now form s) = Response ''201 Created'' (ReviewObj r))))"
proof -
  have 1: "allowed_locations = set [''Albuquerque, New Mexico'', ''Carlsbad, California'',
      ''Chula Vista, California'', ''Colorado Springs, Colorado'', ''Denver, Colorado'',
      ''El Cajon, California'', ''El Paso, Texas'', ''Escondido, California'',
      ''Fresno, California'', ''La Mesa, California'', ''Las Vegas, Nevada'',
      ''Los Angeles, California'', ''Oceanside, California'', ''Phoenix, Arizona'',
      ''Sacramento, California'', ''Salt Lake City, Utah'', ''San Diego, California'',
      ''Tucson, Arizona'']"
    by (simp add: allowed_locations_def)
  have 3: "fst (handle_get sc params s) = Response ''400 Bad Request'' (ErrorObj ''Invalid location'')
         \<longleftrightarrow> loc \<notin> allowed_locations" if "truthy (params ''location'') = Some loc"
    using that handle_get_invalid_location [of params loc sc s]
      handle_get_not_invalid [of params loc sc s]
    by (cases "loc \<in> allowed_locations") simp_all
  have 4: "(fst (handle_post sc uuid now form s) = Response ''400 Bad Request'' (ErrorObj ''Invalid location'')
         \<longleftrightarrow> loc \<notin> allowed_locations)
        \<and> (loc \<in> allowed_locations \<longrightarrow>
             (\<exists>r. fst (handle_post sc uuid now form s) = Response ''201 Created'' (ReviewObj r)))"
    if "truthy (form ''Location'') = Some loc" "truthy (form ''ReviewBody'') = Some body"
    using that handle_post_invalid_location [of form loc body sc uuid now s]
      handle_post_created [of form loc body sc uuid now s]
    by (cases "loc \<in> allowed_locations") simp_all
  show ?thesis
    using 1 card_allowed_locations 3 4 by blast
qed

theorem allowed_locations_full_state_names_witness:
  "fst (handle_get example_scorer [''location'' \<mapsto> ''Atlantis, Ocean''] example_server)
     = Response ''400 Bad Request'' (ErrorObj ''Invalid location'')
   \<and> ''Atlantis, Ocean'' \<notin> allowed_locations
   \<and> ''Phoenix, Arizona'' \<in> allowed_locations
   \<and> (\<exists>r. fst (handle_post example_scorer ''u-1'' example_now
         [''Location'' \<mapsto> ''Phoenix, Arizona'', ''ReviewBody'' \<mapsto> ''Good tacos''] example_server)
       = Response ''201 Created'' (ReviewObj r))"
proof -
  have a: "''Atlantis, Ocean'' \<notin> allowed_locations" and b: "''Phoenix, Arizona'' \<in> allowed_locations"
    by (simp_all add: allowed_locations_def)
  show ?thesis
    using a b
      allowed_locations_full_state_names [of "[''location'' \<mapsto> ''Atlantis, Ocean'']"
        "''Atlantis, Ocean''" example_scorer example_server
        "[''Location'' \<mapsto> ''Phoenix, Arizona'', ''ReviewBody'' \<mapsto> ''Good tacos'']"
        "''Good tacos''" "''u-1''" example_now]
      allowed_locations_full_state_names [of "[''location'' \<mapsto> ''Atlantis, Ocean'']"
        "''Phoenix, Arizona''" example_scorer example_server
        "[''Location'' \<mapsto> ''Phoenix, Arizona'', ''ReviewBody'' \<mapsto> ''Good tacos'']"
        "''Good tacos''" "''u-1''" example_now]
    by simp
qed

text \<open>
  Claim C3 as stated fails: the abbreviated spelling ``Phoenix, AZ'' is not in the set, and a
  submission there is refused.
\<close>

theorem phoenix_az_refused:
  "''Phoenix, AZ'' \<notin> allowed_locations
   \<and> fst (handle_post example_scorer ''u-1'' example_now
        [''Location'' \<mapsto> ''Phoenix, AZ'', ''ReviewBody'' \<mapsto> ''Good tacos''] example_server)
     = Response ''400 Bad Request'' (ErrorObj ''Invalid location'')"
  by (simp add: handle_post_def allowed_locations_def)

text \<open>
  Claim C6. A query whose location is present (a non-empty string) and outside the allowed
  set answers 400 with the error ``Invalid location'': the body holds no review, and the
  server state, heap and stored list, is the one before the call.
\<close>

theorem query_invalid_location:
  assumes "params ''location'' = Some loc" and "loc \<noteq> []" and "loc \<notin> allowed_locations"
  shows "handle_get sc params s = (Response ''400 Bad Request'' (ErrorObj ''Invalid location''), s)"
  using assms handle_get_invalid_location [of params loc sc s] by (simp add: truthy_Some_iff)

theorem query_invalid_location_witness:
  "handle_get example_scorer [''location'' \<mapsto> ''Atlantis, Ocean'', ''start_date'' \<mapsto> ''bad'']
     example_server
   = (Response ''400 Bad Request'' (ErrorObj ''Invalid location''), example_server)"
proof -
  have "''Atlantis, Ocean'' \<notin> allowed_locations"
    by (simp add: allowed_locations_def)
  then show ?thesis
    using query_invalid_location [of "[''location'' \<mapsto> ''Atlantis, Ocean'', ''start_date'' \<mapsto> ''bad'']"
        "''Atlantis, Ocean''" example_scorer example_server]
    by simp
qed

text \<open>
  Claim C7. A submission is validated in this order: when the location or the body is absent
  or empty it is refused as a missing field, whatever the location is; otherwise, when the
  location is outside the allowed set, it is refused as an invalid location. In both cases
  the server state is the one before the call.
\<close>

theorem submit_validation_order:
  "((form ''Location'' = None \<or> form ''Location'' = Some [] \<or>
     form ''ReviewBody'' = None \<or> form ''ReviewBody'' = Some []) \<longrightarrow>
      handle_post sc uuid now form s =
        (Response ''400 Bad Request'' (ErrorObj ''Location and ReviewBody are required''), s))
   \<and> ((form ''Location'' = Some loc \<and> loc \<noteq> [] \<and> form ''ReviewBody'' = Some body \<and> body \<noteq> [] \<and>
       loc \<notin> allowed_locations) \<longrightarrow>
      handle_post sc uuid now form s =
        (Response ''400 Bad Request'' (ErrorObj ''Invalid location''), s))"
proof (intro conjI impI)
  assume "form ''Location'' = None \<or> form ''Location'' = Some [] \<or>
     form ''ReviewBody'' = None \<or> form ''ReviewBody'' = Some []"
  then have "truthy (form ''Location'') = None \<or> truthy (form ''ReviewBody'') = None"
    by (auto simp: truthy_None_iff)
  then show "handle_post sc uuid now form s =
        (Response ''400 Bad Request'' (ErrorObj ''Location and ReviewBody are required''), s)"
    by (rule handle_post_missing)
next
  assume "form ''Location'' = Some loc \<and> loc \<noteq> [] \<and> form ''ReviewBody'' = Some body \<and> body \<noteq> [] \<and>
       loc \<notin> allowed_locations"
  then show "handle_post sc uuid now form s =
        (Response ''400 Bad Request'' (ErrorObj ''Invalid location''), s)"
    using handle_post_invalid_location [of form loc body sc uuid now s]
    by (simp add: truthy_Some_iff)
qed

theorem submit_validation_order_witness:
  "handle_post example_scorer ''u-1'' example_now
      [''Location'' \<mapsto> ''Atlantis, Ocean'', ''ReviewBody'' \<mapsto> []] example_server
     = (Response ''400 Bad Request'' (ErrorObj ''Location and ReviewBody are required''),
        example_server)
   \<and> handle_post example_scorer ''u-1'' example_now
      [''Location'' \<mapsto> ''Atlantis, Ocean'', ''ReviewBody'' \<mapsto> ''Good tacos''] example_server
     = (Response ''400 Bad Request'' (ErrorObj ''Invalid location''), example_server)"
proof -
  have "''Atlantis, Ocean'' \<notin> allowed_locations"
    by (simp add: allowed_locations_def)
  then show ?thesis
    using submit_validation_order [of "[''Location'' \<mapsto> ''Atlantis, Ocean'', ''ReviewBody'' \<mapsto> []]"
        example_scorer "''u-1''" example_now example_server "''Atlantis, Ocean''" "''x''"]
      submit_validation_order [of
        "[''Location'' \<mapsto> ''Atlantis, Ocean'', ''ReviewBody'' \<mapsto> ''Good tacos'']"
        example_scorer "''u-1''" example_now example_server "''Atlantis, Ocean''" "''Good tacos''"]
    by simp
qed

section \<open>The successful query\<close>

lemma set_sentiment_simps [simp]:
  "ReviewId (set_sentiment sc r) = ReviewId r"
  "Location (set_sentiment sc r) = Location r"
  "Timestamp (set_sentiment sc r) = Timestamp r"
  "ReviewBody (set_sentiment sc r) = ReviewBody r"
  "sentiment (set_sentiment sc r) = Some (sc (ReviewBody r))"
  "set_sentiment sc (set_sentiment sc r) = set_sentiment sc r"
  by (simp_all add: set_sentiment_def)

lemma analyze_all_apply:
  "analyze_all sc xs h a = (if a \<in> set xs then set_sentiment sc (h a) else h a)"
  unfolding analyze_all_def
  by (induction xs arbitrary: h) auto

lemma sort_keys_analyzed:
  assumes "\<And>a. a \<in> set xs \<Longrightarrow> sentiment (h a) = Some (sc (ReviewBody (h a)))"
  shows "sort_keys h xs = Inr (map (\<lambda>a. (compound (sc (ReviewBody (h a))), a)) xs)"
  using assms by (induction xs) auto

lemma insort_key_map_inj:
  "insort_key f (g x) (map g ys) = map g (insort_key (\<lambda>y. f (g y)) x ys)"
  by (induction ys) auto

lemma sort_key_map_inj: "sort_key f (map g xs) = map g (sort_key (\<lambda>y. f (g y)) xs)"
  by (induction xs) (auto simp: insort_key_map_inj)

lemma sort_desc_keys:
  "sort_desc (map (\<lambda>a. (k a, a)) xs) = sort_key (\<lambda>a. - k a) xs"
  by (simp add: sort_desc_def sort_key_map_inj comp_def)

text \<open>
  The three filters either fail or give a list; when they give one, the handler answers 200
  with the dictionaries of that list, each with its sentiment written, in the order of the
  stable sort by descending compound score.
\<close>

lemma handle_get_ok:
  assumes "filter_location s (params ''location'') Store = Some l1"
    and "filter_start s (params ''start_date'') l1 = Inr l2"
    and "filter_end s (params ''end_date'') l2 = Inr l3"
  shows "handle_get sc params s =
    (Response ''200 OK'' (ReviewList (map (\<lambda>a. set_sentiment sc (heap s a))
        (sort_key (\<lambda>a. - compound (sc (ReviewBody (heap s a)))) (elems s l3)))),
     s\<lparr>heap := analyze_all sc (elems s l3) (heap s),
       reviews := (case l3 of Store \<Rightarrow> sort_key (\<lambda>a. - compound (sc (ReviewBody (heap s a)))) (reviews s)
                   | Local xs \<Rightarrow> reviews s)\<rparr>)"
proof -
  let ?h = "analyze_all sc (elems s l3) (heap s)"
  let ?s1 = "s\<lparr>heap := ?h\<rparr>"
  let ?k = "\<lambda>a. compound (sc (ReviewBody (heap s a)))"
  have el: "elems ?s1 l3 = elems s l3"
    by (cases l3) simp_all
  have "sort_keys ?h (elems s l3) = Inr (map (\<lambda>a. (compound (sc (ReviewBody (?h a))), a)) (elems s l3))"
    by (rule sort_keys_analyzed) (simp add: analyze_all_apply)
  also have "map (\<lambda>a. (compound (sc (ReviewBody (?h a))), a)) (elems s l3)
      = map (\<lambda>a. (?k a, a)) (elems s l3)"
    by (simp add: analyze_all_apply)
  finally have keys: "sort_keys ?h (elems s l3) = Inr (map (\<lambda>a. (?k a, a)) (elems s l3))" .
  have body: "map ?h (sort_key (\<lambda>a. - ?k a) (elems s l3))
      = map (\<lambda>a. set_sentiment sc (heap s a)) (sort_key (\<lambda>a. - ?k a) (elems s l3))"
    by (simp add: analyze_all_apply)
  show ?thesis
  proof (cases l3)
    case Store
    then show ?thesis
      using assms keys body
      by (simp add: handle_get_def sort_reviews_def sort_desc_keys)
  next
    case (Local xs)
    then show ?thesis
      using assms keys body
      by (simp add: handle_get_def sort_reviews_def sort_desc_keys)
  qed
qed

lemma handle_get_cases:
  obtains (invalid) "handle_get sc params s =
      (Response ''400 Bad Request'' (ErrorObj ''Invalid location''), s)"
  | (raised) e where "handle_get sc params s = (Raised e, s)"
  | (ok) l1 l2 l3 where "filter_location s (params ''location'') Store = Some l1"
      "filter_start s (params ''start_date'') l1 = Inr l2"
      "filter_end s (params ''end_date'') l2 = Inr l3"
proof (cases "filter_location s (params ''location'') Store")
  case None
  then show ?thesis
    using invalid by (simp add: handle_get_def)
next
  case (Some l1)
  show ?thesis
  proof (cases "filter_start s (params ''start_date'') l1")
    case (Inl e)
    with Some show ?thesis
      using raised [of e] by (simp add: handle_get_def)
  next
    case (Inr l2)
    note l2 = this
    show ?thesis
    proof (cases "filter_end s (params ''end_date'') l2")
      case (Inl e)
      with Some l2 show ?thesis
        using raised [of e] by (simp add: handle_get_def)
    next
      case (Inr l3)
      with Some l2 show ?thesis
        using ok by blast
    qed
  qed
qed

lemma filter_location_Store:
  "filter_location s v Store = Some l \<Longrightarrow>
     (l = Store \<and> truthy v = None) \<or> (\<exists>xs. l = Local xs \<and> truthy v \<noteq> None)"
  by (auto simp: filter_location_def split: option.splits if_splits)

lemma filter_start_ref:
  "filter_start s v l = Inr l' \<Longrightarrow>
     (l' = l \<and> truthy v = None) \<or> (\<exists>xs. l' = Local xs \<and> truthy v \<noteq> None)"
  by (auto simp: filter_start_def split: option.splits sum.splits)

lemma filter_end_ref:
  "filter_end s v l = Inr l' \<Longrightarrow>
     (l' = l \<and> truthy v = None) \<or> (\<exists>xs. l' = Local xs \<and> truthy v \<noteq> None)"
  by (auto simp: filter_end_def split: option.splits sum.splits)

lemma no_filters:
  assumes "truthy (params ''location'') = None" "truthy (params ''start_date'') = None"
    "truthy (params ''end_date'') = None"
  shows "filter_location s (params ''location'') Store = Some Store"
    "filter_start s (params ''start_date'') Store = Inr Store"
    "filter_end s (params ''end_date'') Store = Inr Store"
  using assms by (simp_all add: filter_location_def filter_start_def filter_end_def)

section \<open>Claims about the query\<close>

text \<open>
  Claim C4. A query without filters answers 200 with every review of the store, each once
  per stored reference and carrying the sentiment the scorer computes on its body, in
  descending order of the compound score.
\<close>

theorem unfiltered_query_all_sorted:
  assumes "truthy (params ''location'') = None"
    and "truthy (params ''start_date'') = None"
    and "truthy (params ''end_date'') = None"
  shows "\<exists>rs s'. handle_get sc params s = (Response ''200 OK'' (ReviewList rs), s')
    \<and> mset rs = mset (map (\<lambda>a. set_sentiment sc (heap s a)) (reviews s))
    \<and> length rs = length (reviews s)
    \<and> list_all (\<lambda>r. sentiment r = Some (sc (ReviewBody r))) rs
    \<and> sorted_wrt (\<lambda>r r'. compound (sc (ReviewBody r)) \<ge> compound (sc (ReviewBody r'))) rs"
proof -
  let ?k = "\<lambda>a. compound (sc (ReviewBody (heap s a)))"
  let ?ys = "sort_key (\<lambda>a. - ?k a) (reviews s)"
  let ?rs = "map (\<lambda>a. set_sentiment sc (heap s a)) ?ys"
  have "handle_get sc params s = (Response ''200 OK'' (ReviewList ?rs),
      s\<lparr>heap := analyze_all sc (reviews s) (heap s), reviews := ?ys\<rparr>)"
    using handle_get_ok [OF no_filters [OF assms, of s], of sc] by simp
  moreover have "mset ?rs = mset (map (\<lambda>a. set_sentiment sc (heap s a)) (reviews s))"
    by simp
  moreover have "length ?rs = length (reviews s)"
    by simp
  moreover have "list_all (\<lambda>r. sentiment r = Some (sc (ReviewBody r))) ?rs"
    by (simp add: list_all_iff)
  moreover have "sorted_wrt (\<lambda>r r'. compound (sc (ReviewBody r)) \<ge> compound (sc (ReviewBody r'))) ?rs"
  proof -
    have "sorted (map (\<lambda>a. - ?k a) ?ys)"
      by (rule sorted_sort_key)
    then show ?thesis
      by (simp add: sorted_map sorted_wrt_map)
  qed
  ultimately show ?thesis
    by blast
qed

theorem unfiltered_query_all_sorted_witness:
  "\<exists>rs s'. handle_get example_scorer Map.empty example_server = (Response ''200 OK'' (ReviewList rs), s')
    \<and> mset rs = mset (map (\<lambda>a. set_sentiment example_scorer (heap example_server a))
                        (reviews example_server))
    \<and> length rs = length (reviews example_server)
    \<and> list_all (\<lambda>r. sentiment r = Some (example_scorer (ReviewBody r))) rs
    \<and> sorted_wrt (\<lambda>r r'. compound (example_scorer (ReviewBody r))
                          \<ge> compound (example_scorer (ReviewBody r'))) rs"
  using unfiltered_query_all_sorted [of Map.empty example_scorer example_server] by simp

text \<open>
  Claim C1, as amended. Whatever a query answers, the stored list afterwards holds the same
  dictionaries, none added and none removed, and each dictionary keeps its id, location,
  time stamp and body; the one key a query writes is \<^verbatim>\<open>sentiment\<close>, which it sets to the
  score of the body. With at least one filter given the order of the stored list is
  unchanged, and a query that does not answer 200 changes nothing at all.
\<close>

theorem query_effect_on_store:
  assumes "handle_get sc params s = (res, s')"
  shows "mset (reviews s') = mset (reviews s)
    \<and> (\<forall>a. heap s' a = heap s a \<or> heap s' a = set_sentiment sc (heap s a))
    \<and> (\<forall>a. ReviewId (heap s' a) = ReviewId (heap s a) \<and> Location (heap s' a) = Location (heap s a)
          \<and> Timestamp (heap s' a) = Timestamp (heap s a) \<and> ReviewBody (heap s' a) = ReviewBody (heap s a))
    \<and> (truthy (params ''location'') \<noteq> None \<or> truthy (params ''start_date'') \<noteq> None
         \<or> truthy (params ''end_date'') \<noteq> None \<longrightarrow> reviews s' = reviews s)
    \<and> ((\<forall>rs. res \<noteq> Response ''200 OK'' (ReviewList rs)) \<longrightarrow> s' = s)"
proof (cases rule: handle_get_cases [of sc params s])
  case invalid
  with assms show ?thesis by auto
next
  case (raised e)
  with assms show ?thesis by auto
next
  case (ok l1 l2 l3)
  let ?k = "\<lambda>a. compound (sc (ReviewBody (heap s a)))"
  have s': "s' = s\<lparr>heap := analyze_all sc (elems s l3) (heap s),
       reviews := (case l3 of Store \<Rightarrow> sort_key (\<lambda>a. - ?k a) (reviews s) | Local xs \<Rightarrow> reviews s)\<rparr>"
    and res: "\<exists>rs. res = Response ''200 OK'' (ReviewList rs)"
    using assms handle_get_ok [OF ok, of sc] by auto
  have 1: "mset (reviews s') = mset (reviews s)"
    by (cases l3) (simp_all add: s')
  have 2: "heap s' a = heap s a \<or> heap s' a = set_sentiment sc (heap s a)" for a
    by (simp add: s' analyze_all_apply)
  have 3: "ReviewId (heap s' a) = ReviewId (heap s a) \<and> Location (heap s' a) = Location (heap s a)
          \<and> Timestamp (heap s' a) = Timestamp (heap s a) \<and> ReviewBody (heap s' a) = ReviewBody (heap s a)" for a
    by (simp add: s' analyze_all_apply)
  have 4: "reviews s' = reviews s"
    if "truthy (params ''location'') \<noteq> None \<or> truthy (params ''start_date'') \<noteq> None
         \<or> truthy (params ''end_date'') \<noteq> None"
  proof -
    have "\<exists>xs. l3 = Local xs"
      using that filter_location_Store [OF ok(1)] filter_start_ref [OF ok(2)] filter_end_ref [OF ok(3)]
      by auto
    then show ?thesis
      by (auto simp: s')
  qed
  show ?thesis
    using 1 2 3 4 res by blast
qed

theorem query_effect_on_store_witness:
  "mset (reviews (snd (handle_get example_scorer [''location'' \<mapsto> ''Denver, Colorado''] example_server)))
     = mset (reviews example_server)
   \<and> reviews (snd (handle_get example_scorer [''location'' \<mapsto> ''Denver, Colorado''] example_server))
     = reviews example_server
   \<and> ReviewBody (heap (snd (handle_get example_scorer [''location'' \<mapsto> ''Denver, Colorado''] example_server)) 0)
     = ReviewBody (heap example_server 0)"
  using query_effect_on_store [of example_scorer "[''location'' \<mapsto> ''Denver, Colorado'']" example_server
      "fst (handle_get example_scorer [''location'' \<mapsto> ''Denver, Colorado''] example_server)"
      "snd (handle_get example_scorer [''location'' \<mapsto> ''Denver, Colorado''] example_server)"]
  by simp

text \<open>
  Claim C1 as stated fails. A query at ``Denver, Colorado'' leaves the stored Denver review
  with a \<^verbatim>\<open>sentiment\<close> key it did not have; and a query without filters sorts the stored list
  itself, which \<^verbatim>\<open>filtered_reviews\<close> is then bound to.
\<close>

theorem query_changes_store:
  "sentiment (heap example_server 0) = None
   \<and> sentiment (heap (snd (handle_get example_scorer [''location'' \<mapsto> ''Denver, Colorado'']
        example_server)) 0) = Some (example_scorer ''Terrible service, cold food'')
   \<and> reviews example_server = [0, 1]
   \<and> reviews (snd (handle_get example_scorer Map.empty example_server)) = [1, 0]"
proof -
  have a: "''Denver, Colorado'' \<in> allowed_locations"
    by (simp add: allowed_locations_def)
  have f: "filter_location example_server ([''location'' \<mapsto> ''Denver, Colorado''] ''location'') Store
      = Some (Local [0])"
    using a by (simp add: filter_location_def example_server_def review0_def review1_def)
  have g: "filter_start example_server ([''location'' \<mapsto> ''Denver, Colorado''] ''start_date'') (Local [0])
      = Inr (Local [0])"
    "filter_end example_server ([''location'' \<mapsto> ''Denver, Colorado''] ''end_date'') (Local [0])
      = Inr (Local [0])"
    by (simp_all add: filter_start_def filter_end_def)
  have 1: "sentiment (heap (snd (handle_get example_scorer [''location'' \<mapsto> ''Denver, Colorado'']
        example_server)) 0) = Some (example_scorer ''Terrible service, cold food'')"
    by (simp add: handle_get_ok [OF f g] analyze_all_apply)
      (simp add: example_server_def review0_def)
  have n: "filter_location example_server (Map.empty ''location'') Store = Some Store"
    "filter_start example_server (Map.empty ''start_date'') Store = Inr Store"
    "filter_end example_server (Map.empty ''end_date'') Store = Inr Store"
    by (simp_all add: filter_location_def filter_start_def filter_end_def)
  have 2: "reviews (snd (handle_get example_scorer Map.empty example_server)) = [1, 0]"
    by (simp add: handle_get_ok [OF n])
      (simp add: example_server_def review0_def review1_def example_scorer_def)
  show ?thesis
    using 1 2 by (simp add: example_server_def review0_def)
qed

text \<open>
  Claim C10. A query whose location is given but empty (read as the empty string, or dropped
  by \<^verbatim>\<open>parse_qs\<close> and so read as \<^verbatim>\<open>None\<close>) is a query without a location filter: it answers
  what the query without the parameter answers, it never answers ``Invalid location'', the
  location step hands the whole stored list on, so that the reviews returned are exactly
  those the two date filters keep of the whole store, and with no date given they are all
  the stored reviews.
\<close>

theorem query_empty_location:
  assumes "params ''location'' = Some [] \<or> params ''location'' = None"
  shows "handle_get sc params s = handle_get sc (params(''location'' := None)) s
    \<and> fst (handle_get sc params s) \<noteq> Response ''400 Bad Request'' (ErrorObj ''Invalid location'')
    \<and> filter_location s (params ''location'') Store = Some Store
    \<and> (\<forall>st rs s'. handle_get sc params s = (Response st (ReviewList rs), s') \<longrightarrow>
         (\<exists>l2 l3. filter_start s (params ''start_date'') Store = Inr l2
            \<and> filter_end s (params ''end_date'') l2 = Inr l3
            \<and> mset rs = mset (map (\<lambda>a. set_sentiment sc (heap s a)) (elems s l3))))
    \<and> (truthy (params ''start_date'') = None \<and> truthy (params ''end_date'') = None \<longrightarrow>
         (\<exists>rs s'. handle_get sc params s = (Response ''200 OK'' (ReviewList rs), s')
            \<and> mset rs = mset (map (\<lambda>a. set_sentiment sc (heap s a)) (reviews s))
            \<and> length rs = length (reviews s)))"
proof -
  from assms have t: "truthy (params ''location'') = None"
    by (auto simp: truthy_None_iff)
  have fl: "filter_location s (params ''location'') Store = Some Store"
    by (simp add: filter_location_def t)
  have 1: "handle_get sc params s = handle_get sc (params(''location'' := None)) s"
    by (simp add: handle_get_def filter_location_def t)
  have 2: "fst (handle_get sc params s)
      \<noteq> Response ''400 Bad Request'' (ErrorObj ''Invalid location'')"
    by (auto simp: handle_get_def fl Let_def split: sum.splits prod.splits)
  have 3: "\<exists>l2 l3. filter_start s (params ''start_date'') Store = Inr l2
            \<and> filter_end s (params ''end_date'') l2 = Inr l3
            \<and> mset rs = mset (map (\<lambda>a. set_sentiment sc (heap s a)) (elems s l3))"
    if r: "handle_get sc params s = (Response st (ReviewList rs), s')" for st rs s'
  proof (cases rule: handle_get_cases [of sc params s])
    case invalid
    with r show ?thesis by simp
  next
    case (raised e)
    with r show ?thesis by simp
  next
    case (ok l1 l2 l3)
    from ok(1) fl have l1: "l1 = Store" by simp
    have "rs = map (\<lambda>a. set_sentiment sc (heap s a))
        (sort_key (\<lambda>a. - compound (sc (ReviewBody (heap s a)))) (elems s l3))"
      using r handle_get_ok [OF ok, of sc] by simp
    then have "mset rs = mset (map (\<lambda>a. set_sentiment sc (heap s a)) (elems s l3))"
      by simp
    with ok(2,3) l1 show ?thesis by blast
  qed
  have 4: "\<exists>rs s'. handle_get sc params s = (Response ''200 OK'' (ReviewList rs), s')
            \<and> mset rs = mset (map (\<lambda>a. set_sentiment sc (heap s a)) (reviews s))
            \<and> length rs = length (reviews s)"
    if d: "truthy (params ''start_date'') = None" "truthy (params ''end_date'') = None"
  proof -
    let ?rs = "map (\<lambda>a. set_sentiment sc (heap s a))
        (sort_key (\<lambda>a. - compound (sc (ReviewBody (heap s a)))) (reviews s))"
    have "\<exists>s'. handle_get sc params s = (Response ''200 OK'' (ReviewList ?rs), s')"
      using handle_get_ok [OF no_filters [OF t d, of s], of sc] by simp
    moreover have "mset ?rs = mset (map (\<lambda>a. set_sentiment sc (heap s a)) (reviews s))"
      by simp
    moreover have "length ?rs = length (reviews s)"
      by simp
    ultimately show ?thesis
      by blast
  qed
  show ?thesis
    using 1 2 fl 3 4 by blast
qed

theorem query_empty_location_witness:
  "fst (handle_get example_scorer [''location'' \<mapsto> []] example_server)
      \<noteq> Response ''400 Bad Request'' (ErrorObj ''Invalid location'')
   \<and> filter_location example_server ([''location'' \<mapsto> []] ''location'') Store = Some Store
   \<and> (\<exists>rs s'. handle_get example_scorer [''location'' \<mapsto> []] example_server
          = (Response ''200 OK'' (ReviewList rs), s')
        \<and> mset rs = mset (map (\<lambda>a. set_sentiment example_scorer (heap example_server a))
                            (reviews example_server))
        \<and> length rs = length (reviews example_server))"
proof -
  have h: "[''location'' \<mapsto> []] ''location'' = Some [] \<or> [''location'' \<mapsto> []] ''location'' = None"
    by simp
  have d: "truthy ([''location'' \<mapsto> []] ''start_date'') = None
      \<and> truthy ([''location'' \<mapsto> []] ''end_date'') = None"
    by simp
  show ?thesis
    using query_empty_location [of "[''location'' \<mapsto> []]" example_scorer example_server] h d
    by blast
qed

section \<open>Claims about the submission\<close>

lemma handle_post_ReviewObj:
  assumes "handle_post sc uuid now form s = (Response st (ReviewObj r), s1)"
  obtains loc body where "truthy (form ''Location'') = Some loc"
    and "truthy (form ''ReviewBody'') = Some body" and "loc \<in> allowed_locations"
    and "st = ''201 Created''"
    and "r = \<lparr>ReviewId = uuid, Location = loc, Timestamp = strftime now,
               ReviewBody = body, sentiment = Some (sc body)\<rparr>"
    and "s1 = s\<lparr>heap := (heap s)(new_addr s := r), reviews := reviews s @ [new_addr s]\<rparr>"
  using assms
  by (auto simp: handle_post_def Let_def split: option.splits if_splits)

text \<open>
  Claim C9. The review a successful submission returns is found again by a following query
  without filters: the query answers 200 with a list that holds that very record, so a
  record with the same id, location, body and time stamp.
\<close>

theorem submit_then_query_round_trip:
  assumes "handle_post sc uuid now form s = (Response ''201 Created'' (ReviewObj r), s1)"
    and "truthy (params ''location'') = None"
    and "truthy (params ''start_date'') = None"
    and "truthy (params ''end_date'') = None"
  shows "\<exists>rs s2. handle_get sc params s1 = (Response ''200 OK'' (ReviewList rs), s2)
    \<and> r \<in> set rs
    \<and> (\<exists>r' \<in> set rs. ReviewId r' = ReviewId r \<and> Location r' = Location r
          \<and> ReviewBody r' = ReviewBody r \<and> Timestamp r' = Timestamp r)
    \<and> length rs = length (reviews s) + 1"
proof -
  from assms(1) obtain loc body
    where r: "r = \<lparr>ReviewId = uuid, Location = loc, Timestamp = strftime now,
               ReviewBody = body, sentiment = Some (sc body)\<rparr>"
      and s1: "s1 = s\<lparr>heap := (heap s)(new_addr s := r), reviews := reviews s @ [new_addr s]\<rparr>"
    by (rule handle_post_ReviewObj)
  let ?ys = "sort_key (\<lambda>a. - compound (sc (ReviewBody (heap s1 a)))) (reviews s1)"
  let ?rs = "map (\<lambda>a. set_sentiment sc (heap s1 a)) ?ys"
  have g: "\<exists>s2. handle_get sc params s1 = (Response ''200 OK'' (ReviewList ?rs), s2)"
    using handle_get_ok [OF no_filters [OF assms(2-4), of s1], of sc] by simp
  have "set_sentiment sc r = r"
    by (simp add: r set_sentiment_def)
  moreover have "new_addr s \<in> set ?ys" "heap s1 (new_addr s) = r"
    by (simp_all add: s1)
  ultimately have m: "r \<in> set ?rs"
    by (metis (no_types, lifting) image_eqI set_map)
  have l: "length ?rs = length (reviews s) + 1"
    by (simp add: s1)
  from g m l show ?thesis
    by blast
qed

theorem submit_then_query_round_trip_witness:
  "\<exists>rs s2. handle_get example_scorer Map.empty
       (snd (handle_post example_scorer ''u-1'' example_now
          [''Location'' \<mapsto> ''Denver, Colorado'', ''ReviewBody'' \<mapsto> ''Good tacos''] example_server))
       = (Response ''200 OK'' (ReviewList rs), s2)
    \<and> (\<exists>r' \<in> set rs. ReviewId r' = ''u-1'' \<and> Location r' = ''Denver, Colorado''
          \<and> ReviewBody r' = ''Good tacos'' \<and> Timestamp r' = strftime example_now)
    \<and> length rs = length (reviews example_server) + 1"
proof -
  let ?form = "[''Location'' \<mapsto> ''Denver, Colorado'', ''ReviewBody'' \<mapsto> ''Good tacos'']"
  let ?r = "\<lparr>ReviewId = ''u-1'', Location = ''Denver, Colorado'', Timestamp = strftime example_now,
             ReviewBody = ''Good tacos'', sentiment = Some (example_scorer ''Good tacos'')\<rparr>"
  let ?s1 = "snd (handle_post example_scorer ''u-1'' example_now ?form example_server)"
  have "''Denver, Colorado'' \<in> allowed_locations"
    by (simp add: allowed_locations_def)
  then have p: "handle_post example_scorer ''u-1'' example_now ?form example_server
      = (Response ''201 Created'' (ReviewObj ?r), ?s1)"
    using handle_post_created [of ?form "''Denver, Colorado''" "''Good tacos''"
        example_scorer "''u-1''" example_now example_server]
    by simp
  have n: "truthy (Map.empty ''location'') = None" "truthy (Map.empty ''start_date'') = None"
    "truthy (Map.empty ''end_date'') = None"
    by simp_all
  have "Location ?r = ''Denver, Colorado''" "ReviewId ?r = ''u-1''" "ReviewBody ?r = ''Good tacos''"
    "Timestamp ?r = strftime example_now"
    by simp_all
  then show ?thesis
    using submit_then_query_round_trip [where params = Map.empty, OF p n] by metis
qed

section \<open>Claims about the date filters\<close>

lemma mk_datetime_Inl: "mk_datetime t = Inl e \<Longrightarrow> e = ValueError"
  by (simp add: mk_datetime_def split: if_splits)

lemma strptime_date_Inl: "strptime_date cs = Inl e \<Longrightarrow> e = ValueError"
  unfolding strptime_date_def
  by (auto dest: mk_datetime_Inl split: option.splits prod.splits list.splits)

lemma strptime_datetime_Inl: "strptime_datetime cs = Inl e \<Longrightarrow> e = ValueError"
  unfolding strptime_datetime_def
  by (auto dest: mk_datetime_Inl split: option.splits prod.splits list.splits)

lemma filter_ts_Inl: "filter_ts P h xs = Inl e \<Longrightarrow> e = ValueError"
  by (induction xs arbitrary: e)
    (auto dest: strptime_datetime_Inl split: sum.splits)


lemma filter_end_Inl: "filter_end s v l = Inl e \<Longrightarrow> e = ValueError"
  by (auto simp: filter_end_def dest: strptime_date_Inl filter_ts_Inl split: option.splits sum.splits)












section \<open>The three filters\<close>













section \<open>Formatting a time stamp and reading it back\<close>

lemma of_char_digit: "(of_char (digit n) :: nat) = 48 + n mod 10"
  by (simp add: digit_def)

lemma rng_digit:
  "rng lo hi (digit n) \<longleftrightarrow> (of_char lo :: nat) \<le> 48 + n mod 10 \<and> 48 + n mod 10 \<le> (of_char hi :: nat)"
  by (simp add: rng_def of_char_digit)

lemma is_digit_digit [simp]: "is_digit (digit n)"
  by (simp add: is_digit_def rng_digit)




lemma not_space_digit [simp]: "\<not> is_space (digit n)"
proof -
  have "n mod 10 < 10" by simp
  then show ?thesis
    unfolding is_space_def of_char_digit by auto
qed





















section \<open>The successful submission\<close>







end
